theory Spec2Isabelle
  imports Main "HOL-Library.AList" "HOL-Library.Char_ord" "HOL-Library.List_Lexorder"
begin

section \<open>The local configuration: \<open>config_service/config_helper.py\<close>\<close>

text \<open>
  \<open>ConfigHelper\<close> keeps the configuration as a Python dictionary, read from and written
  to \<open>config.json\<close>. A JSON value is a datatype; a dictionary is an association list
  whose keys are distinct as long as it is only changed through \<open>AList.update\<close> and
  \<open>AList.delete\<close> (Python's \<open>dict.update\<close> and \<open>dict.pop\<close>). Strings are byte
  strings: a character beyond ASCII is written as its UTF-8 bytes.
\<close>

datatype json =
    JNull
  | JBool bool
  | JInt int
  | JStr string
  | JList "json list"
  | JObj "(string \<times> json) list"

datatype error = ValueError string | OSError string

text \<open>
  \<open>_save\<close> opens the file at \<open>config_path\<close> with mode \<open>w+\<close> and writes the serialised
  dictionary. The file system is part of the state: \<open>disk\<close> gives the content of the
  file at each path (\<open>None\<close> where there is no file), either the dictionary that
  \<open>json.dumps\<close> serialised or an incomplete text; \<open>outcome\<close> says what an attempt to open
  and write the file at a path leads to. \<open>open\<close> may raise an \<open>OSError\<close> (a missing
  directory, no permission) and leave the disk as it was; it may succeed, which
  truncates the file, and the write may then fail with an \<open>OSError\<close>, which leaves an
  incomplete text; or both succeed.
\<close>

datatype file_content = Dumped "(string \<times> json) list" | Incomplete

datatype write_outcome = Write_completes | Open_fails | Write_fails

text \<open>
  The state a method of \<open>ConfigHelper\<close> can read or change: the object's two attributes
  and the file system. A method is a function from the state to its result and the state
  it leaves; the result is \<open>Inl\<close> of the exception it raises or \<open>Inr\<close> of the value it
  returns.
\<close>

record config_helper =
  whole_config :: "(string \<times> json) list"
  config_path :: string
  disk :: "string \<rightharpoonup> file_content"
  outcome :: "string \<Rightarrow> write_outcome"

definition save :: "config_helper \<Rightarrow> (error + unit) \<times> config_helper" where
  "save s =
     (case outcome s (config_path s) of
        Open_fails \<Rightarrow> (Inl (OSError (config_path s)), s)
      | Write_fails \<Rightarrow>
          (Inl (OSError (config_path s)), s\<lparr>disk := (disk s)(config_path s \<mapsto> Incomplete)\<rparr>)
      | Write_completes \<Rightarrow>
          (Inr (), s\<lparr>disk := (disk s)(config_path s \<mapsto> Dumped (whole_config s))\<rparr>))"

definition get_property :: "config_helper \<Rightarrow> string \<Rightarrow> error + json" where
  "get_property s key =
     (case map_of (whole_config s) key of
        Some v \<Rightarrow> Inr v
      | None \<Rightarrow> Inl (ValueError (''The '' @ key @ ''-Property is not yet configured!'')))"

text \<open>A key is configured when the dictionary has it (\<open>key in self._whole_config\<close>).\<close>

definition configured :: "config_helper \<Rightarrow> string \<Rightarrow> bool" where
  "configured s key = (key \<in> fst ` set (whole_config s))"

text \<open>
  \<open>set_property\<close> and \<open>remove_property\<close> change the dictionary first and save it then: when
  \<open>_save\<close> raises, the dictionary has been changed all the same.
\<close>

definition set_property :: "config_helper \<Rightarrow> string \<Rightarrow> json \<Rightarrow> (error + unit) \<times> config_helper" where
  "set_property s key v = save (s\<lparr>whole_config := AList.update key v (whole_config s)\<rparr>)"

definition remove_property :: "config_helper \<Rightarrow> string \<Rightarrow> (error + unit) \<times> config_helper" where
  "remove_property s key = save (s\<lparr>whole_config := AList.delete key (whole_config s)\<rparr>)"

text \<open>
  The two default character maps. The Windows map sends each character that a Windows
  file name cannot hold to its full-width look-alike (U+FF3C, U+FF0F, U+A789, U+FF1F,
  U+FF0A, U+FF1C, U+FF1E, U+FF5C, U+FF02), given here in UTF-8.
\<close>

definition windows_map :: json where
  "windows_map = JObj
     [([CHR 0x5C], JStr [CHR 0xEF, CHR 0xBC, CHR 0xBC]),
      (''/'', JStr [CHR 0xEF, CHR 0xBC, CHR 0x8F]),
      ('':'', JStr [CHR 0xEA, CHR 0x9E, CHR 0x89]),
      (''?'', JStr [CHR 0xEF, CHR 0xBC, CHR 0x9F]),
      (''*'', JStr [CHR 0xEF, CHR 0xBC, CHR 0x8A]),
      (''<'', JStr [CHR 0xEF, CHR 0xBC, CHR 0x9C]),
      (''>'', JStr [CHR 0xEF, CHR 0xBC, CHR 0x9E]),
      (''|'', JStr [CHR 0xEF, CHR 0xBD, CHR 0x9C]),
      ([CHR 0x22], JStr [CHR 0xEF, CHR 0xBC, CHR 0x82])]"

definition linux_map :: json where
  "linux_map = JObj [(''/'', JStr ''|'')]"

definition set_default_filename_character_map ::
  "config_helper \<Rightarrow> bool \<Rightarrow> (error + unit) \<times> config_helper" where
  "set_default_filename_character_map s default_windows_map =
     (if default_windows_map then set_property s ''filename_character_map'' windows_map
      else set_property s ''filename_character_map'' linux_map)"

subsection \<open>The getters\<close>

text \<open>
  \<open>try: return self.get_property(k) except ValueError: return d\<close> is \<open>with_default\<close>;
  \<open>... except ValueError: raise ValueError('Not yet configured!')\<close> is
  \<open>or_not_configured\<close>. An exception that is not a \<open>ValueError\<close> passes through both.
\<close>

definition with_default :: "config_helper \<Rightarrow> string \<Rightarrow> json \<Rightarrow> error + json" where
  "with_default s key d =
     (case get_property s key of
        Inr v \<Rightarrow> Inr v
      | Inl (ValueError m) \<Rightarrow> Inr d
      | Inl (OSError p) \<Rightarrow> Inl (OSError p))"

definition or_not_configured :: "config_helper \<Rightarrow> string \<Rightarrow> error + json" where
  "or_not_configured s key =
     (case get_property s key of
        Inr v \<Rightarrow> Inr v
      | Inl (ValueError m) \<Rightarrow> Inl (ValueError ''Not yet configured!'')
      | Inl (OSError p) \<Rightarrow> Inl (OSError p))"

definition get_download_submissions :: "config_helper \<Rightarrow> (error + json) \<times> config_helper" where
  "get_download_submissions s = (with_default s ''download_submissions'' (JBool False), s)"

definition get_download_descriptions :: "config_helper \<Rightarrow> (error + json) \<times> config_helper" where
  "get_download_descriptions s = (with_default s ''download_descriptions'' (JBool False), s)"

definition get_download_databases :: "config_helper \<Rightarrow> (error + json) \<times> config_helper" where
  "get_download_databases s = (with_default s ''download_databases'' (JBool False), s)"

definition get_download_course_ids :: "config_helper \<Rightarrow> (error + json) \<times> config_helper" where
  "get_download_course_ids s = (with_default s ''download_course_ids'' (JList []), s)"

definition get_token :: "config_helper \<Rightarrow> (error + json) \<times> config_helper" where
  "get_token s = (or_not_configured s ''token'', s)"

definition get_moodle_domain :: "config_helper \<Rightarrow> (error + json) \<times> config_helper" where
  "get_moodle_domain s = (or_not_configured s ''moodle_domain'', s)"

definition get_moodle_path :: "config_helper \<Rightarrow> (error + json) \<times> config_helper" where
  "get_moodle_path s = (or_not_configured s ''moodle_path'', s)"

definition get_options_of_courses :: "config_helper \<Rightarrow> (error + json) \<times> config_helper" where
  "get_options_of_courses s = (with_default s ''options_of_courses'' (JObj []), s)"

definition get_dont_download_course_ids :: "config_helper \<Rightarrow> (error + json) \<times> config_helper" where
  "get_dont_download_course_ids s = (with_default s ''dont_download_course_ids'' (JList []), s)"

definition get_download_linked_files :: "config_helper \<Rightarrow> (error + json) \<times> config_helper" where
  "get_download_linked_files s = (with_default s ''download_linked_files'' (JBool False), s)"

text \<open>
  \<open>get_download_options\<close> fills a fresh local dictionary, one key after the other, each
  with the stored value or its default.
\<close>

definition option_or :: "config_helper \<Rightarrow> string \<Rightarrow> json \<Rightarrow> error + json" where
  "option_or s key d = with_default s key d"

definition get_download_options :: "config_helper \<Rightarrow> (error + json) \<times> config_helper" where
  "get_download_options s =
     (case option_or s ''download_linked_files'' (JBool False) of
        Inl e \<Rightarrow> (Inl e, s)
      | Inr linked \<Rightarrow>
     (case option_or s ''download_domains_whitelist'' (JList []) of
        Inl e \<Rightarrow> (Inl e, s)
      | Inr whitelist \<Rightarrow>
     (case option_or s ''download_domains_blacklist'' (JList []) of
        Inl e \<Rightarrow> (Inl e, s)
      | Inr blacklist \<Rightarrow>
          (let options = [];
               options = AList.update ''download_linked_files'' linked options;
               options = AList.update ''download_domains_whitelist'' whitelist options;
               options = AList.update ''download_domains_blacklist'' blacklist options
           in (Inr (JObj options), s)))))"

text \<open>
  \<open>get_filename_character_map\<close> is the getter that writes: when the key is missing it
  calls \<open>set_default_filename_character_map(True)\<close>, which stores the Windows map through
  \<open>set_property\<close> and so saves the file, and reads the key again. Its \<open>except\<close> clause
  catches \<open>ValueError\<close> only, and the call stands inside the handler: an \<open>OSError\<close> of
  \<open>_save\<close> reaches the caller.
\<close>

definition get_filename_character_map :: "config_helper \<Rightarrow> (error + json) \<times> config_helper" where
  "get_filename_character_map s =
     (case get_property s ''filename_character_map'' of
        Inr v \<Rightarrow> (Inr v, s)
      | Inl (OSError p) \<Rightarrow> (Inl (OSError p), s)
      | Inl (ValueError m) \<Rightarrow>
          (case set_default_filename_character_map s True of
             (Inl e, s') \<Rightarrow> (Inl e, s')
           | (Inr u, s') \<Rightarrow> (get_property s' ''filename_character_map'', s')))"

section \<open>The change filter: \<open>MoodleService._filter_courses\<close>\<close>

text \<open>
  A \<open>Course\<close> carries its id, its name and a list of files. Of a file the filter reads
  \<open>content_type\<close> alone; \<open>saved_to\<close> is the path the notification prints. The type of the
  files is a parameter of the course record.
\<close>

record moodle_file =
  content_type :: string
  saved_to :: string

record 'f course =
  course_id :: int
  fullname :: string
  files :: "'f list"

text \<open>
  The filter receives a Python list of \<open>Course\<close> objects and assigns to their \<open>files\<close>
  attribute, so the objects live in a store: a reference is a number, the store gives the
  object at each reference, and the list \<open>changes\<close> is a list of references (the same
  object may be listed twice).
\<close>

type_synonym ref = nat

type_synonym store = "ref \<Rightarrow> moodle_file course"

text \<open>
  One block of the loop body: \<open>course_files = []\<close>, then every file whose content type
  is not the dropped one is appended, then \<open>course.files = course_files\<close>.
\<close>

definition drop_content_type :: "string \<Rightarrow> moodle_file course \<Rightarrow> moodle_file course" where
  "drop_content_type t c = c\<lparr>files := filter (\<lambda>f. content_type f \<noteq> t) (files c)\<rparr>"

definition filter_files :: "bool \<Rightarrow> bool \<Rightarrow> bool \<Rightarrow> moodle_file course \<Rightarrow> moodle_file course" where
  "filter_files download_submissions download_descriptions download_databases c =
     (let c = (if \<not> download_submissions then drop_content_type ''submission_file'' c else c);
          c = (if \<not> download_descriptions then drop_content_type ''description'' c else c);
          c = (if \<not> download_databases then drop_content_type ''database_file'' c else c)
      in c)"

text \<open>
  \<open>ResultsHandler._should_download_course\<close> is not among the sources; the filter takes
  it as its first argument \<open>sdc\<close> (course id, allow-list, deny-list). The loop runs over
  \<open>changes\<close> with the store and the list \<open>filtered_changes\<close> built so far.
\<close>

fun filter_courses_loop ::
  "(int \<Rightarrow> int list \<Rightarrow> int list \<Rightarrow> bool) \<Rightarrow> int list \<Rightarrow> int list \<Rightarrow> bool \<Rightarrow> bool \<Rightarrow> bool \<Rightarrow>
   store \<Rightarrow> ref list \<Rightarrow> ref list \<Rightarrow> store \<times> ref list" where
  "filter_courses_loop sdc download_course_ids dont_download_course_ids
     download_submissions download_descriptions download_databases h [] filtered_changes =
     (h, filtered_changes)"
| "filter_courses_loop sdc download_course_ids dont_download_course_ids
     download_submissions download_descriptions download_databases h (r # rs) filtered_changes =
     (let h' = h(r := filter_files download_submissions download_descriptions download_databases (h r));
          filtered_changes' =
            (if sdc (course_id (h' r)) download_course_ids dont_download_course_ids
                \<and> length (files (h' r)) > 0
             then filtered_changes @ [r] else filtered_changes)
      in filter_courses_loop sdc download_course_ids dont_download_course_ids
           download_submissions download_descriptions download_databases h' rs filtered_changes')"

definition filter_courses ::
  "(int \<Rightarrow> int list \<Rightarrow> int list \<Rightarrow> bool) \<Rightarrow> store \<Rightarrow> ref list \<Rightarrow> int list \<Rightarrow> int list \<Rightarrow>
   bool \<Rightarrow> bool \<Rightarrow> bool \<Rightarrow> store \<times> ref list" where
  "filter_courses sdc h changes download_course_ids dont_download_course_ids
     download_submissions download_descriptions download_databases =
     filter_courses_loop sdc download_course_ids dont_download_course_ids
       download_submissions download_descriptions download_databases h changes []"

text \<open>
  What the three toggles keep of a list of files, written at once: a file stays unless
  its content type is one whose toggle is off.
\<close>

definition kept :: "bool \<Rightarrow> bool \<Rightarrow> bool \<Rightarrow> moodle_file \<Rightarrow> bool" where
  "kept download_submissions download_descriptions download_databases f =
     ((download_submissions \<or> content_type f \<noteq> ''submission_file'')
      \<and> (download_descriptions \<or> content_type f \<noteq> ''description'')
      \<and> (download_databases \<or> content_type f \<noteq> ''database_file''))"

text \<open>
  Modelled from the spec: \<open>ResultsHandler._should_download_course\<close>, which is not among
  the sources. The spec drops the courses "not selected by the allow-list (or present in
  the deny-list)". Only the examples use it; every theorem about the filter holds for
  any selection function.
\<close>

definition should_download_course :: "int \<Rightarrow> int list \<Rightarrow> int list \<Rightarrow> bool" where
  "should_download_course cid download_course_ids dont_download_course_ids =
     (cid \<in> set download_course_ids \<and> cid \<notin> set dont_download_course_ids)"

section \<open>The reconciliation engine, from the specification\<close>

text \<open>
  \<open>MoodleService.fetch_state\<close> calls \<open>self.recorder.changes_of_new_version\<close>, but the
  module \<open>state_recorder\<close> is not among the sources. The definitions of this section
  follow the specification's data model (its section 3) and its algorithm (section 4.1)
  sentence by sentence.
\<close>

text \<open>
  Modelled from the spec: the File and the ChangeEntry of the data model, missing with
  \<open>state_recorder\<close>. A File has an identity, a content hash, a path, a content category
  and a size; a ChangeEntry has a base file, one kind, and the linked file of a Moved
  pair. A Course is the record of the change filter, with these files.
\<close>

datatype content_category = Submission | Description | Database | Generic

record snapshot_file =
  identity :: nat
  content_hash :: string
  path :: string
  content_category :: content_category
  file_size :: nat

datatype kind = New | Modified | Moved | Deleted

record change_entry =
  base_file :: snapshot_file
  kind :: kind
  linked_file :: "snapshot_file option"

text \<open>
  Modelled from the spec: the \<open>DiffInconsistencyError\<close> of section 7, missing with
  \<open>state_recorder\<close>. It carries the course id, the identity and the two competing paths.
\<close>

datatype diff_error = DiffInconsistencyError int nat string string

text \<open>
  Modelled from the spec: step 1 of the reconciliation algorithm, missing with
  \<open>state_recorder\<close>: "Build an index of old files keyed by identity". The index is a
  dictionary filled file by file.
\<close>

definition build_index :: "snapshot_file list \<Rightarrow> (nat \<times> snapshot_file) list" where
  "build_index old = fold (\<lambda>f idx. AList.update (identity f) f idx) old []"

text \<open>
  Modelled from the spec: the secondary match of step 2, missing with \<open>state_recorder\<close>:
  the candidates are the remaining (unconsumed) old files with the new file's
  \<open>(content_hash, size)\<close>; one candidate is the match, and among several the one with the
  lexicographically smallest path.
\<close>

definition secondary_match :: "(nat \<times> snapshot_file) list \<Rightarrow> snapshot_file \<Rightarrow> snapshot_file option" where
  "secondary_match idx f =
     (case filter (\<lambda>old. content_hash old = content_hash f \<and> file_size old = file_size f) (map snd idx) of
        [] \<Rightarrow> None
      | c # cs \<Rightarrow> Some (arg_min_list path (c # cs)))"

text \<open>
  Modelled from the spec: steps 2 and 3 of the reconciliation algorithm, missing with
  \<open>state_recorder\<close>. For each file of the new snapshot, in order: an identity found in
  the index gives Modified when the hash differs (the old record as base, the new hash
  recorded), else Moved when the path differs (the old record as base, the new record
  linked), else nothing, and the identity is removed from the index; an identity not
  found gives Moved with the secondary match, which is consumed, or else New. The
  entries left in the index at the end are Deleted.
\<close>

fun classify :: "(nat \<times> snapshot_file) list \<Rightarrow> snapshot_file list \<Rightarrow> change_entry list" where
  "classify idx [] =
     map (\<lambda>(k, old). \<lparr>base_file = old, kind = Deleted, linked_file = None\<rparr>) idx"
| "classify idx (f # fs) =
     (case map_of idx (identity f) of
        Some old \<Rightarrow>
          (let idx' = AList.delete (identity f) idx in
           if content_hash old \<noteq> content_hash f then
             \<lparr>base_file = old\<lparr>content_hash := content_hash f\<rparr>, kind = Modified, linked_file = None\<rparr>
               # classify idx' fs
           else if path old \<noteq> path f then
             \<lparr>base_file = old, kind = Moved, linked_file = Some f\<rparr> # classify idx' fs
           else classify idx' fs)
      | None \<Rightarrow>
          (case secondary_match idx f of
             Some old \<Rightarrow>
               \<lparr>base_file = old, kind = Moved, linked_file = Some f\<rparr>
                 # classify (AList.delete (identity old) idx) fs
           | None \<Rightarrow> \<lparr>base_file = f, kind = New, linked_file = None\<rparr> # classify idx fs))"

text \<open>
  Modelled from the spec: the failure condition of section 4.1, missing with
  \<open>state_recorder\<close>: two files of one course of the new snapshot with the same identity.
\<close>

fun find_duplicate :: "snapshot_file list \<Rightarrow> (snapshot_file \<times> snapshot_file) option" where
  "find_duplicate [] = None"
| "find_duplicate (f # fs) =
     (case find (\<lambda>g. identity g = identity f) fs of
        Some g \<Rightarrow> Some (f, g)
      | None \<Rightarrow> find_duplicate fs)"

text \<open>
  Modelled from the spec: \<open>diff(old: PersistedState, new: Snapshot)\<close>, missing with
  \<open>state_recorder\<close>. It works per course of the new snapshot (a course that is only
  in the old state is ignored, a course that is only in the new one has an empty
  baseline), fails on the first course with a duplicate identity, and pairs each course
  with its entries.
\<close>

definition old_files :: "snapshot_file course list \<Rightarrow> int \<Rightarrow> snapshot_file list" where
  "old_files old cid = (case find (\<lambda>c. course_id c = cid) old of Some c \<Rightarrow> files c | None \<Rightarrow> [])"

definition diff_course :: "snapshot_file list \<Rightarrow> snapshot_file course \<Rightarrow> diff_error + change_entry list" where
  "diff_course old c =
     (case find_duplicate (files c) of
        Some (f, g) \<Rightarrow> Inl (DiffInconsistencyError (course_id c) (identity f) (path f) (path g))
      | None \<Rightarrow> Inr (classify (build_index old) (files c)))"

fun diff ::
  "snapshot_file course list \<Rightarrow> snapshot_file course list \<Rightarrow>
   diff_error + (snapshot_file course \<times> change_entry list) list" where
  "diff old [] = Inr []"
| "diff old (c # cs) =
     (case diff_course (old_files old (course_id c)) c of
        Inl e \<Rightarrow> Inl e
      | Inr es \<Rightarrow> (case diff old cs of Inl e \<Rightarrow> Inl e | Inr rest \<Rightarrow> Inr ((c, es) # rest)))"

text \<open>
  Modelled from the spec: the invariant of a PersistedState in section 3, "one
  PersistedState entry per \<open>(course.id, file.identity)\<close> pair": no course id twice, and
  within a course no identity twice.
\<close>

definition persisted_state :: "snapshot_file course list \<Rightarrow> bool" where
  "persisted_state S = (distinct (map course_id S) \<and> list_all (\<lambda>c. distinct (map identity (files c))) S)"

text \<open>The identities an entry mentions: its base file's and its linked file's.\<close>

definition entry_identities :: "change_entry \<Rightarrow> nat set" where
  "entry_identities e = insert (identity (base_file e)) (identity ` set_option (linked_file e))"

text \<open>The number of entries of a list that mention an identity.\<close>

definition mentions :: "nat \<Rightarrow> change_entry list \<Rightarrow> nat" where
  "mentions i es = length (filter (\<lambda>e. i \<in> entry_identities e) es)"

section \<open>Example inputs\<close>

text \<open>
  A configuration that holds a token only, once beside a file system on which
  \<open>config.json\<close> can be written, once with its file in a directory that does not exist;
  a store with two courses; and the files of one course in several states: \<open>file_a\<close> and
  \<open>file_c\<close> as stored, a copy of \<open>file_a\<close> under a new identity, and \<open>file_a\<close> after an
  edit that also renamed it.
\<close>

definition token_only :: config_helper where
  "token_only =
     \<lparr>whole_config = [(''token'', JStr ''abc'')], config_path = ''config.json'',
      disk = Map.empty, outcome = (\<lambda>p. Write_completes)\<rparr>"

definition token_only_missing_dir :: config_helper where
  "token_only_missing_dir =
     \<lparr>whole_config = [(''token'', JStr ''abc'')], config_path = ''missing_dir/config.json'',
      disk = Map.empty, outcome = (\<lambda>p. Open_fails)\<rparr>"

definition example_store :: store where
  "example_store = (\<lambda>r. \<lparr>course_id = 0, fullname = [], files = []\<rparr>)
     (0 := \<lparr>course_id = 7, fullname = ''Logic'',
            files = [\<lparr>content_type = ''submission_file'', saved_to = ''a.pdf''\<rparr>,
                     \<lparr>content_type = ''resource'', saved_to = ''b.pdf''\<rparr>]\<rparr>,
      1 := \<lparr>course_id = 8, fullname = ''Algebra'',
            files = [\<lparr>content_type = ''description'', saved_to = ''c.md''\<rparr>]\<rparr>)"

definition file_a :: snapshot_file where
  "file_a = \<lparr>identity = 1, content_hash = ''A'', path = ''a.pdf'',
             content_category = Generic, file_size = 10\<rparr>"

definition file_a_copy :: snapshot_file where
  "file_a_copy = \<lparr>identity = 2, content_hash = ''A'', path = ''b.pdf'',
                  content_category = Generic, file_size = 10\<rparr>"

definition file_a_edited :: snapshot_file where
  "file_a_edited = \<lparr>identity = 1, content_hash = ''B'', path = ''a2.pdf'',
                    content_category = Generic, file_size = 12\<rparr>"

definition file_c :: snapshot_file where
  "file_c = \<lparr>identity = 3, content_hash = ''C'', path = ''c.pdf'',
             content_category = Submission, file_size = 7\<rparr>"

definition logic :: "snapshot_file list \<Rightarrow> snapshot_file course" where
  "logic fs = \<lparr>course_id = 7, fullname = ''Logic'', files = fs\<rparr>"

section \<open>Properties of the configuration getters\<close>

lemma get_property_unconfigured:
  "\<not> configured s key \<Longrightarrow>
   get_property s key = Inl (ValueError (''The '' @ key @ ''-Property is not yet configured!''))"
  by (simp add: configured_def get_property_def map_of_eq_None_iff [symmetric])

lemma get_property_configured:
  "configured s key \<Longrightarrow> \<exists>v. get_property s key = Inr v"
  by (cases "map_of (whole_config s) key")
     (simp_all add: configured_def get_property_def map_of_eq_None_iff)

lemma update_fresh: "k \<notin> fst ` set al \<Longrightarrow> AList.update k v al = al @ [(k, v)]"
  by (induction al) auto

text \<open>
  Claim C9. When the configuration has no entry for the key it reads, each getter that
  feeds the filter returns its default instead of failing: \<open>False\<close> for the download
  toggles of submissions, descriptions, databases and linked files, the empty list for
  the two lists of course ids. \<open>get_token\<close>, \<open>get_moodle_domain\<close> and \<open>get_moodle_path\<close>
  raise a \<open>ValueError\<close> instead.
\<close>

theorem getters_unconfigured:
  "(\<not> configured s ''download_submissions'' \<longrightarrow>
      fst (get_download_submissions s) = Inr (JBool False))
 \<and> (\<not> configured s ''download_descriptions'' \<longrightarrow>
      fst (get_download_descriptions s) = Inr (JBool False))
 \<and> (\<not> configured s ''download_databases'' \<longrightarrow>
      fst (get_download_databases s) = Inr (JBool False))
 \<and> (\<not> configured s ''download_linked_files'' \<longrightarrow>
      fst (get_download_linked_files s) = Inr (JBool False))
 \<and> (\<not> configured s ''download_course_ids'' \<longrightarrow>
      fst (get_download_course_ids s) = Inr (JList []))
 \<and> (\<not> configured s ''dont_download_course_ids'' \<longrightarrow>
      fst (get_dont_download_course_ids s) = Inr (JList []))
 \<and> (\<not> configured s ''token'' \<longrightarrow>
      fst (get_token s) = Inl (ValueError ''Not yet configured!''))
 \<and> (\<not> configured s ''moodle_domain'' \<longrightarrow>
      fst (get_moodle_domain s) = Inl (ValueError ''Not yet configured!''))
 \<and> (\<not> configured s ''moodle_path'' \<longrightarrow>
      fst (get_moodle_path s) = Inl (ValueError ''Not yet configured!''))"
  by (simp add: get_property_unconfigured with_default_def or_not_configured_def
      get_download_submissions_def get_download_descriptions_def get_download_databases_def
      get_download_linked_files_def get_download_course_ids_def get_dont_download_course_ids_def
      get_token_def get_moodle_domain_def get_moodle_path_def)

text \<open>
  A configuration without any of the keys but \<open>token\<close>: the toggles and lists come back
  as defaults, the domain and the path raise, and the token, which is there, is returned.
\<close>

theorem getters_unconfigured_witness:
  "\<not> configured token_only ''download_submissions''
 \<and> fst (get_download_submissions token_only) = Inr (JBool False)
 \<and> fst (get_download_descriptions token_only) = Inr (JBool False)
 \<and> fst (get_download_databases token_only) = Inr (JBool False)
 \<and> fst (get_download_linked_files token_only) = Inr (JBool False)
 \<and> fst (get_download_course_ids token_only) = Inr (JList [])
 \<and> fst (get_dont_download_course_ids token_only) = Inr (JList [])
 \<and> fst (get_moodle_domain token_only) = Inl (ValueError ''Not yet configured!'')
 \<and> fst (get_moodle_path token_only) = Inl (ValueError ''Not yet configured!'')
 \<and> configured token_only ''token''
 \<and> fst (get_token token_only) = Inr (JStr ''abc'')"
proof -
  have absent: "\<not> configured token_only k" if "k \<noteq> ''token''" for k
    using that by (simp add: configured_def token_only_def)
  have token: "fst (get_token token_only) = Inr (JStr ''abc'')"
    by (simp add: get_token_def or_not_configured_def get_property_def token_only_def)
  have present: "configured token_only ''token''"
    by (simp add: configured_def token_only_def)
  from getters_unconfigured [of token_only] absent token present show ?thesis
    by simp
qed

text \<open>
  Claim C10, as the code has it. \<open>get_filename_character_map\<close> is the one getter with an
  effect. When the key \<open>filename_character_map\<close> is missing, it stores the default Windows
  map in the dictionary through \<open>set_property\<close>, which then rewrites the configuration
  file. If the file is opened and written, the getter returns that map and the file holds
  the new dictionary. If \<open>open\<close> raises, the getter raises that \<open>OSError\<close> and the disk is
  as it was; if the write raises, the getter raises it and the file is left incomplete.
  When the key is there, the getter returns the stored value and changes nothing. In
  every case the dictionary has the key after the call. Every other getter leaves the
  object and the disk as they were.
\<close>

theorem get_filename_character_map_effect:
  "(\<not> configured s ''filename_character_map'' \<longrightarrow>
      whole_config (snd (get_filename_character_map s)) =
        whole_config s @ [(''filename_character_map'', windows_map)]
    \<and> config_path (snd (get_filename_character_map s)) = config_path s
    \<and> outcome (snd (get_filename_character_map s)) = outcome s
    \<and> snd (get_filename_character_map s) \<noteq> s
    \<and> (outcome s (config_path s) = Write_completes \<longrightarrow>
          fst (get_filename_character_map s) = Inr windows_map
        \<and> snd (get_filename_character_map s) =
            snd (set_property s ''filename_character_map'' windows_map)
        \<and> disk (snd (get_filename_character_map s)) =
            (disk s)(config_path s \<mapsto>
               Dumped (whole_config s @ [(''filename_character_map'', windows_map)])))
    \<and> (outcome s (config_path s) = Open_fails \<longrightarrow>
          fst (get_filename_character_map s) = Inl (OSError (config_path s))
        \<and> disk (snd (get_filename_character_map s)) = disk s)
    \<and> (outcome s (config_path s) = Write_fails \<longrightarrow>
          fst (get_filename_character_map s) = Inl (OSError (config_path s))
        \<and> disk (snd (get_filename_character_map s)) = (disk s)(config_path s \<mapsto> Incomplete)))
 \<and> (configured s ''filename_character_map'' \<longrightarrow>
      get_filename_character_map s = (get_property s ''filename_character_map'', s))
 \<and> configured (snd (get_filename_character_map s)) ''filename_character_map''
 \<and> snd (get_download_submissions s) = s
 \<and> snd (get_download_descriptions s) = s
 \<and> snd (get_download_databases s) = s
 \<and> snd (get_download_course_ids s) = s
 \<and> snd (get_token s) = s
 \<and> snd (get_moodle_domain s) = s
 \<and> snd (get_moodle_path s) = s
 \<and> snd (get_options_of_courses s) = s
 \<and> snd (get_dont_download_course_ids s) = s
 \<and> snd (get_download_linked_files s) = s
 \<and> snd (get_download_options s) = s"
proof -
  let ?k = "''filename_character_map''"
  let ?r = "get_filename_character_map s"
  let ?new = "whole_config s @ [(?k, windows_map)]"
  define s1 where "s1 = s\<lparr>whole_config := ?new\<rparr>"
  have absent:
    "whole_config (snd ?r) = ?new \<and> config_path (snd ?r) = config_path s
      \<and> outcome (snd ?r) = outcome s \<and> snd ?r \<noteq> s
      \<and> (outcome s (config_path s) = Write_completes \<longrightarrow>
            fst ?r = Inr windows_map \<and> snd ?r = snd (set_property s ?k windows_map)
          \<and> disk (snd ?r) = (disk s)(config_path s \<mapsto> Dumped ?new))
      \<and> (outcome s (config_path s) = Open_fails \<longrightarrow>
            fst ?r = Inl (OSError (config_path s)) \<and> disk (snd ?r) = disk s)
      \<and> (outcome s (config_path s) = Write_fails \<longrightarrow>
            fst ?r = Inl (OSError (config_path s))
          \<and> disk (snd ?r) = (disk s)(config_path s \<mapsto> Incomplete))"
    if no: "\<not> configured s ?k"
  proof -
    have fresh: "?k \<notin> fst ` set (whole_config s)" using no by (simp add: configured_def)
    have sp: "set_property s ?k windows_map = save s1"
      by (simp add: set_property_def s1_def update_fresh [OF fresh])
    have run: "?r = (case save s1 of (Inl e, s') \<Rightarrow> (Inl e, s')
                     | (Inr u, s') \<Rightarrow> (get_property s' ?k, s'))"
      by (simp add: get_filename_character_map_def get_property_unconfigured [OF no]
          set_default_filename_character_map_def sp)
    have none: "map_of (whole_config s) ?k = None"
      using fresh by (simp add: map_of_eq_None_iff)
    have look: "get_property (s1\<lparr>disk := d\<rparr>) ?k = Inr windows_map" for d
      by (simp add: get_property_def s1_def map_add_def none)
    have s1: "whole_config s1 = ?new" "config_path s1 = config_path s"
      "outcome s1 = outcome s" "disk s1 = disk s"
      by (simp_all add: s1_def)
    have changed: "whole_config s' = ?new \<Longrightarrow> s' \<noteq> s" for s'
      by auto
    show ?thesis
    proof (cases "outcome s (config_path s)")
      case Write_completes
      then have sv: "save s1 = (Inr (), s1\<lparr>disk := (disk s)(config_path s \<mapsto> Dumped ?new)\<rparr>)"
        by (simp add: save_def s1)
      have r: "?r = (Inr windows_map, s1\<lparr>disk := (disk s)(config_path s \<mapsto> Dumped ?new)\<rparr>)"
        by (simp add: run sv look)
      have "snd ?r \<noteq> s" by (rule changed) (simp add: r s1)
      then show ?thesis using Write_completes by (simp add: r sp sv s1)
    next
      case Open_fails
      then have sv: "save s1 = (Inl (OSError (config_path s)), s1)"
        by (simp add: save_def s1)
      have r: "?r = (Inl (OSError (config_path s)), s1)"
        by (simp add: run sv)
      have "snd ?r \<noteq> s" by (rule changed) (simp add: r s1)
      then show ?thesis using Open_fails by (simp add: r s1)
    next
      case Write_fails
      then have sv: "save s1 =
          (Inl (OSError (config_path s)), s1\<lparr>disk := (disk s)(config_path s \<mapsto> Incomplete)\<rparr>)"
        by (simp add: save_def s1)
      have r: "?r = (Inl (OSError (config_path s)), s1\<lparr>disk := (disk s)(config_path s \<mapsto> Incomplete)\<rparr>)"
        by (simp add: run sv)
      have "snd ?r \<noteq> s" by (rule changed) (simp add: r s1)
      then show ?thesis using Write_fails by (simp add: r s1)
    qed
  qed
  have there: "?r = (get_property s ?k, s)" if yes: "configured s ?k"
  proof -
    from get_property_configured [OF yes] obtain v where "get_property s ?k = Inr v" ..
    then show ?thesis by (simp add: get_filename_character_map_def)
  qed
  have after: "configured (snd ?r) ?k"
  proof (cases "configured s ?k")
    case True
    with there show ?thesis by simp
  next
    case False
    from absent [OF False] have "whole_config (snd ?r) = ?new" by (rule conjunct1)
    then show ?thesis by (simp add: configured_def)
  qed
  have others: "snd (get_download_submissions s) = s" "snd (get_download_descriptions s) = s"
    "snd (get_download_databases s) = s" "snd (get_download_course_ids s) = s"
    "snd (get_token s) = s" "snd (get_moodle_domain s) = s" "snd (get_moodle_path s) = s"
    "snd (get_options_of_courses s) = s" "snd (get_dont_download_course_ids s) = s"
    "snd (get_download_linked_files s) = s"
    by (simp_all add: get_download_submissions_def get_download_descriptions_def
        get_download_databases_def get_download_course_ids_def get_token_def
        get_moodle_domain_def get_moodle_path_def get_options_of_courses_def
        get_dont_download_course_ids_def get_download_linked_files_def)
  have options: "snd (get_download_options s) = s"
    by (simp add: get_download_options_def Let_def split: sum.splits)
  from absent there after others options show ?thesis by blast
qed

text \<open>
  The claim as first stated, that the getter always returns the map after rewriting the
  file, fails where the file cannot be opened. The configuration file of this state lies
  in a directory that does not exist: the key is missing, the getter does not return the
  map but raises the \<open>OSError\<close> of \<open>open\<close>, and no file is written.
\<close>

theorem get_filename_character_map_raises:
  "\<not> configured token_only_missing_dir ''filename_character_map''
 \<and> fst (get_filename_character_map token_only_missing_dir) =
     Inl (OSError ''missing_dir/config.json'')
 \<and> fst (get_filename_character_map token_only_missing_dir) \<noteq> Inr windows_map
 \<and> disk (snd (get_filename_character_map token_only_missing_dir)) ''missing_dir/config.json'' = None"
  by (simp add: configured_def token_only_missing_dir_def get_filename_character_map_def
      get_property_def set_default_filename_character_map_def set_property_def save_def)

text \<open>
  Where the file can be written, the first call adds the Windows map to the dictionary
  and writes the file; a second call finds the key and changes nothing.
\<close>

theorem get_filename_character_map_effect_witness:
  "\<not> configured token_only ''filename_character_map''
 \<and> outcome token_only (config_path token_only) = Write_completes
 \<and> fst (get_filename_character_map token_only) = Inr windows_map
 \<and> whole_config (snd (get_filename_character_map token_only)) =
     [(''token'', JStr ''abc''), (''filename_character_map'', windows_map)]
 \<and> disk (snd (get_filename_character_map token_only)) ''config.json'' =
     Some (Dumped [(''token'', JStr ''abc''), (''filename_character_map'', windows_map)])
 \<and> configured (snd (get_filename_character_map token_only)) ''filename_character_map''
 \<and> snd (get_filename_character_map (snd (get_filename_character_map token_only))) =
     snd (get_filename_character_map token_only)"
proof -
  let ?s1 = "snd (get_filename_character_map token_only)"
  have no: "\<not> configured token_only ''filename_character_map''"
    by (simp add: configured_def token_only_def)
  have fields: "whole_config token_only = [(''token'', JStr ''abc'')]"
    "config_path token_only = ''config.json''" "disk token_only = Map.empty"
    by (simp_all add: token_only_def)
  have ok: "outcome token_only (config_path token_only) = Write_completes"
    by (simp add: token_only_def)
  note first = get_filename_character_map_effect [of token_only]
  from first no ok have ret: "fst (get_filename_character_map token_only) = Inr windows_map"
    by blast
  from first no have dict: "whole_config ?s1 =
      whole_config token_only @ [(''filename_character_map'', windows_map)]"
    by blast
  from first no ok have saved: "disk ?s1 = (disk token_only)(config_path token_only \<mapsto>
      Dumped (whole_config token_only @ [(''filename_character_map'', windows_map)]))"
    by blast
  from first have there: "configured ?s1 ''filename_character_map''"
    by blast
  from get_filename_character_map_effect [of ?s1] there
  have again: "snd (get_filename_character_map ?s1) = ?s1"
    by simp
  from saved have saved': "disk ?s1 ''config.json'' =
      Some (Dumped [(''token'', JStr ''abc''), (''filename_character_map'', windows_map)])"
    by (simp add: fields)
  from dict have dict': "whole_config ?s1 =
      [(''token'', JStr ''abc''), (''filename_character_map'', windows_map)]"
    by (simp add: fields)
  from no ok ret dict' saved' there again show ?thesis
    by (simp only: simp_thms)
qed

section \<open>Properties of the change filter\<close>

lemma filter_files_eq:
  "filter_files ds dd db c = c\<lparr>files := filter (kept ds dd db) (files c)\<rparr>"
  by (cases ds; cases dd; cases db)
     (simp_all add: filter_files_def drop_content_type_def kept_def [abs_def] Let_def)

lemma filter_files_idem:
  "filter_files ds dd db (filter_files ds dd db c) = filter_files ds dd db c"
  by (simp add: filter_files_eq)

lemma loop_store:
  "fst (filter_courses_loop sdc a d ds dd db h rs acc) r =
     (if r \<in> set rs then filter_files ds dd db (h r) else h r)"
  by (induction rs arbitrary: h acc) (auto simp: Let_def filter_files_idem)

lemma loop_out:
  "snd (filter_courses_loop sdc a d ds dd db h rs acc) =
     acc @ filter (\<lambda>r. sdc (course_id (h r)) a d \<and> filter (kept ds dd db) (files (h r)) \<noteq> []) rs"
proof (induction rs arbitrary: h acc)
  case Nil
  then show ?case by simp
next
  case (Cons r rs)
  define h' where "h' = h(r := filter_files ds dd db (h r))"
  define sel where
    "sel = (\<lambda>(g::store) q. sdc (course_id (g q)) a d \<and> filter (kept ds dd db) (files (g q)) \<noteq> [])"
  have same: "sel h' = sel h"
    by (rule ext) (simp add: sel_def h'_def filter_files_eq)
  have here: "(sdc (course_id (h' r)) a d \<and> length (files (h' r)) > 0) = sel h r"
    by (simp add: sel_def h'_def filter_files_eq)
  have "snd (filter_courses_loop sdc a d ds dd db h (r # rs) acc) =
        snd (filter_courses_loop sdc a d ds dd db h' rs (if sel h r then acc @ [r] else acc))"
    using here by (simp add: Let_def h'_def)
  also have "\<dots> = (if sel h r then acc @ [r] else acc) @ filter (sel h') rs"
    unfolding sel_def by (rule Cons.IH)
  also have "\<dots> = acc @ filter (sel h) (r # rs)"
    by (simp add: same)
  finally show ?case by (simp add: sel_def)
qed

text \<open>
  Claim C2. The filter first drops, from every course of the change-set, each file whose
  content type (\<open>submission_file\<close>, \<open>description\<close>, \<open>database_file\<close>) has its toggle off,
  each toggle on its own (\<open>kept\<close>); only then it selects courses. The output lists, in
  the order of the input, exactly the courses that the allow- and deny-list select and
  whose file list is not empty after the category filtering.
\<close>

theorem filter_courses_category_then_course:
  "filter_courses sdc h changes a d ds dd db = (h', out) \<Longrightarrow>
     (\<forall>r \<in> set changes. files (h' r) = filter (kept ds dd db) (files (h r)))
   \<and> out = filter (\<lambda>r. sdc (course_id (h r)) a d \<and> filter (kept ds dd db) (files (h r)) \<noteq> []) changes
   \<and> (\<forall>r. r \<in> set out \<longleftrightarrow> r \<in> set changes \<and> sdc (course_id (h r)) a d \<and> files (h' r) \<noteq> [])"
proof -
  assume run: "filter_courses sdc h changes a d ds dd db = (h', out)"
  have st: "\<And>r. h' r = (if r \<in> set changes then filter_files ds dd db (h r) else h r)"
    using run loop_store [of sdc a d ds dd db h changes "[]"] by (simp add: filter_courses_def)
  have ou: "out = filter (\<lambda>r. sdc (course_id (h r)) a d \<and> filter (kept ds dd db) (files (h r)) \<noteq> []) changes"
    using run loop_out [of sdc a d ds dd db h changes "[]"] by (simp add: filter_courses_def)
  show ?thesis
    using ou by (auto simp: st filter_files_eq)
qed

text \<open>
  Both example courses are selected and descriptions are off: the first course keeps its
  two files and stays; the second has a description only, is left without files and is
  dropped although its id is in the allow-list.
\<close>

theorem filter_courses_category_then_course_witness:
  "files (fst (filter_courses should_download_course example_store [0, 1] [7, 8] [] True False True) 0) =
     [\<lparr>content_type = ''submission_file'', saved_to = ''a.pdf''\<rparr>,
      \<lparr>content_type = ''resource'', saved_to = ''b.pdf''\<rparr>]
 \<and> files (fst (filter_courses should_download_course example_store [0, 1] [7, 8] [] True False True) 1) = []
 \<and> snd (filter_courses should_download_course example_store [0, 1] [7, 8] [] True False True) = [0]"
proof -
  let ?run = "filter_courses should_download_course example_store [0, 1] [7, 8] [] True False True"
  have "?run = (fst ?run, snd ?run)" by simp
  from filter_courses_category_then_course [OF this] show ?thesis
    by (simp add: kept_def example_store_def should_download_course_def)
qed

text \<open>
  Claim C1, as the code has it. The filter does not leave its input alone: it assigns to
  the \<open>files\<close> attribute of every course in the list it is given, so after the call such
  a course holds the category-filtered list. The id and the name of the course, and every
  course that is not in the list, are untouched, and the list that is returned holds
  courses of the input only. A course of the input is therefore unchanged exactly when
  none of its files has a content type whose toggle is off.
\<close>

theorem filter_courses_rebinds_files:
  "fst (filter_courses sdc h changes a d ds dd db) r =
     (if r \<in> set changes then (h r)\<lparr>files := filter (kept ds dd db) (files (h r))\<rparr> else h r)
 \<and> set (snd (filter_courses sdc h changes a d ds dd db)) \<subseteq> set changes
 \<and> (fst (filter_courses sdc h changes a d ds dd db) r = h r \<longleftrightarrow>
      r \<notin> set changes \<or> (\<forall>f \<in> set (files (h r)). kept ds dd db f))"
proof -
  have st: "fst (filter_courses sdc h changes a d ds dd db) r =
     (if r \<in> set changes then (h r)\<lparr>files := filter (kept ds dd db) (files (h r))\<rparr> else h r)"
    using loop_store [of sdc a d ds dd db h changes "[]" r]
    by (simp add: filter_courses_def filter_files_eq)
  have out: "set (snd (filter_courses sdc h changes a d ds dd db)) \<subseteq> set changes"
    using loop_out [of sdc a d ds dd db h changes "[]"] by (auto simp: filter_courses_def)
  have "((h r)\<lparr>files := filter (kept ds dd db) (files (h r))\<rparr> = h r) =
        (\<forall>f \<in> set (files (h r)). kept ds dd db f)"
  proof
    assume "(h r)\<lparr>files := filter (kept ds dd db) (files (h r))\<rparr> = h r"
    then have "files ((h r)\<lparr>files := filter (kept ds dd db) (files (h r))\<rparr>) = files (h r)"
      by simp
    then show "\<forall>f \<in> set (files (h r)). kept ds dd db f"
      by (simp add: filter_id_conv)
  next
    assume "\<forall>f \<in> set (files (h r)). kept ds dd db f"
    then have "filter (kept ds dd db) (files (h r)) = files (h r)"
      by (simp add: filter_id_conv)
    then show "(h r)\<lparr>files := filter (kept ds dd db) (files (h r))\<rparr> = h r"
      by simp
  qed
  with st out show ?thesis by auto
qed

text \<open>
  With submissions off, the first example course loses its submission: the object the
  caller passed in now has one file where it had two.
\<close>

theorem filter_courses_mutates_input:
  "files (example_store 0) =
     [\<lparr>content_type = ''submission_file'', saved_to = ''a.pdf''\<rparr>,
      \<lparr>content_type = ''resource'', saved_to = ''b.pdf''\<rparr>]
 \<and> files (fst (filter_courses should_download_course example_store [0] [7] [] False True True) 0) =
     [\<lparr>content_type = ''resource'', saved_to = ''b.pdf''\<rparr>]
 \<and> fst (filter_courses should_download_course example_store [0] [7] [] False True True) 0
     \<noteq> example_store 0"
  by (simp add: filter_courses_def filter_files_def drop_content_type_def example_store_def Let_def)

theorem filter_courses_rebinds_files_witness:
  "fst (filter_courses should_download_course example_store [0] [7] [] False True True) 0 =
     \<lparr>course_id = 7, fullname = ''Logic'',
      files = [\<lparr>content_type = ''resource'', saved_to = ''b.pdf''\<rparr>]\<rparr>
 \<and> fst (filter_courses should_download_course example_store [0] [7] [] False True True) 1 =
     example_store 1
 \<and> fst (filter_courses should_download_course example_store [0] [7] [] True True True) 0 =
     example_store 0"
  using filter_courses_rebinds_files [of should_download_course example_store "[0]" "[7]" "[]" False True True 0]
    filter_courses_rebinds_files [of should_download_course example_store "[0]" "[7]" "[]" False True True 1]
    filter_courses_rebinds_files [of should_download_course example_store "[0]" "[7]" "[]" True True True 0]
  by (simp add: kept_def example_store_def)

section \<open>Properties of the reconciliation engine\<close>

subsection \<open>The index of a state without duplicates\<close>

lemma fold_update_distinct:
  "distinct (map identity old) \<Longrightarrow> identity ` set old \<inter> fst ` set idx = {} \<Longrightarrow>
   fold (\<lambda>f idx. AList.update (identity f) f idx) old idx = idx @ map (\<lambda>f. (identity f, f)) old"
proof (induction old arbitrary: idx)
  case Nil
  then show ?case by simp
next
  case (Cons f old)
  have fresh: "identity f \<notin> fst ` set idx" using Cons.prems(2) by auto
  have "identity ` set old \<inter> fst ` set (idx @ [(identity f, f)]) = {}"
    using Cons.prems by auto
  with Cons.IH [of "idx @ [(identity f, f)]"] Cons.prems(1) show ?case
    by (simp add: update_fresh [OF fresh])
qed

lemma build_index_distinct:
  "distinct (map identity old) \<Longrightarrow> build_index old = map (\<lambda>f. (identity f, f)) old"
  using fold_update_distinct [of old "[]"] by (simp add: build_index_def)

lemma find_Some_holds: "find P xs = Some x \<Longrightarrow> x \<in> set xs \<and> P x"
  by (induction xs) (auto split: if_splits)

lemma find_duplicate_None: "find_duplicate fs = None \<longleftrightarrow> distinct (map identity fs)"
proof (induction fs)
  case Nil
  then show ?case by simp
next
  case (Cons f fs)
  show ?case
  proof (cases "find (\<lambda>g. identity g = identity f) fs")
    case None
    then have "identity f \<notin> identity ` set fs" by (auto simp: find_None_iff)
    with None Cons show ?thesis by simp
  next
    case (Some g)
    then have "g \<in> set fs \<and> identity g = identity f" by (rule find_Some_holds)
    then have "identity f \<in> identity ` set fs" by (metis imageI)
    with Some show ?thesis by simp
  qed
qed

lemma classify_same:
  "distinct (map identity fs) \<Longrightarrow> distinct (map fst idx) \<Longrightarrow>
   set idx = (\<lambda>f. (identity f, f)) ` set fs \<Longrightarrow> classify idx fs = []"
proof (induction fs arbitrary: idx)
  case Nil
  then show ?case by simp
next
  case (Cons f fs)
  have look: "map_of idx (identity f) = Some f"
    using Cons.prems(2,3) by (intro map_of_is_SomeI) auto
  have "set (AList.delete (identity f) idx) = (\<lambda>f. (identity f, f)) ` set fs"
    using Cons.prems(1,3) by (auto simp: AList.delete_eq)
  with Cons.IH [of "AList.delete (identity f) idx"] Cons.prems(1,2)
  have "classify (AList.delete (identity f) idx) fs = []"
    by (simp add: distinct_delete)
  with look show ?case by simp
qed

lemma classify_unchanged: "distinct (map identity fs) \<Longrightarrow> classify (build_index fs) fs = []"
  by (rule classify_same) (simp_all add: build_index_distinct comp_def)

lemma find_distinct:
  "distinct (map f xs) \<Longrightarrow> x \<in> set xs \<Longrightarrow> find (\<lambda>y. f y = f x) xs = Some x"
  by (induction xs) (auto simp: rev_image_eqI)

lemma diff_same:
  "persisted_state S \<Longrightarrow> set cs \<subseteq> set S \<Longrightarrow> diff S cs = Inr (map (\<lambda>c. (c, [])) cs)"
proof (induction cs)
  case Nil
  then show ?case by simp
next
  case (Cons c cs)
  have c: "c \<in> set S" using Cons.prems(2) by simp
  have d: "distinct (map identity (files c))"
    using Cons.prems(1) c by (simp add: persisted_state_def list_all_iff)
  have "old_files S (course_id c) = files c"
    using Cons.prems(1) c by (simp add: old_files_def persisted_state_def find_distinct)
  then have "diff_course (old_files S (course_id c)) c = Inr []"
    using d by (simp add: diff_course_def find_duplicate_None [THEN iffD2] classify_unchanged)
  with Cons show ?case by simp
qed

text \<open>
  Claim C8. Diffing a PersistedState (distinct course ids, distinct identities within each
  course) against the snapshot that equals it succeeds and pairs every course with the
  empty list of entries: nothing is New, Modified, Moved or Deleted.
\<close>

theorem diff_unchanged_is_empty:
  "persisted_state S \<Longrightarrow> diff S S = Inr (map (\<lambda>c. (c, [])) S)"
  by (rule diff_same) simp_all

theorem diff_unchanged_is_empty_witness:
  "persisted_state [logic [file_a, file_c]]
 \<and> diff [logic [file_a, file_c]] [logic [file_a, file_c]] = Inr [(logic [file_a, file_c], [])]"
proof -
  have ps: "persisted_state [logic [file_a, file_c]]"
    by (simp add: persisted_state_def logic_def file_a_def file_c_def)
  from diff_unchanged_is_empty [OF ps] ps show ?thesis by simp
qed

subsection \<open>Where the step list loses the output guarantee\<close>

text \<open>
  Claim C3. In the change-set every file identity of the old or the new state is to
  appear in at most one entry, and a file whose identity, hash and path are all unchanged
  in none. The step list of the specification does not keep this. \<open>file_a\<close> is stored
  and still there, unchanged, and a copy of it under a new identity is listed before it.
  The copy finds no identity of its own in the index, matches \<open>file_a\<close>'s record by hash
  and size and consumes it as the origin of a move; \<open>file_a\<close> then finds its identity
  gone from the index and is reported as New. Identity 1 is in two entries, and an
  unchanged file is reported.
\<close>

theorem diff_identity_in_two_entries:
  "persisted_state [logic [file_a]]
 \<and> diff [logic [file_a]] [logic [file_a_copy, file_a]] =
     Inr [(logic [file_a_copy, file_a],
           [\<lparr>base_file = file_a, kind = Moved, linked_file = Some file_a_copy\<rparr>,
            \<lparr>base_file = file_a, kind = New, linked_file = None\<rparr>])]
 \<and> mentions (identity file_a)
      [\<lparr>base_file = file_a, kind = Moved, linked_file = Some file_a_copy\<rparr>,
       \<lparr>base_file = file_a, kind = New, linked_file = None\<rparr>] = 2"
  by (simp add: persisted_state_def logic_def old_files_def diff_course_def build_index_def
      secondary_match_def mentions_def entry_identities_def file_a_def file_a_copy_def)

text \<open>
  Claim C6. An old and a new file with the same identity and different hashes are to be
  classified Modified, also when the path differs. The step list of the specification
  does not keep this either, for the same reason. \<open>file_a\<close> was edited (new hash, new
  path), and a copy of its old content under a new identity is listed before it. The copy
  consumes \<open>file_a\<close>'s record as the origin of a move, and the edited file, whose identity
  is no longer in the index, is reported as New although its hash differs from the
  stored one.
\<close>

theorem diff_hash_change_classified_new:
  "identity file_a = identity file_a_edited
 \<and> content_hash file_a \<noteq> content_hash file_a_edited
 \<and> diff [logic [file_a]] [logic [file_a_copy, file_a_edited]] =
     Inr [(logic [file_a_copy, file_a_edited],
           [\<lparr>base_file = file_a, kind = Moved, linked_file = Some file_a_copy\<rparr>,
            \<lparr>base_file = file_a_edited, kind = New, linked_file = None\<rparr>])]"
  by (simp add: logic_def old_files_def diff_course_def build_index_def
      secondary_match_def file_a_def file_a_copy_def file_a_edited_def)

end
